theory Spec2Isabelle
  imports Complex_Main
begin

section \<open>Data model of the assembly-kit environment\<close>

text \<open>
  The environment class \<open>AssemblyKitEnv\<close> keeps batched tensors whose first dimension is
  the environment index. A tensor of shape \<open>(N, 3)\<close> is a list of \<open>N\<close> rows, a row a triple.
  Floating-point numbers are idealised as reals. Quaternions are \<open>(w, x, y, z)\<close>.
\<close>

type_synonym vec3 = "real \<times> real \<times> real"
type_synonym quat = "real \<times> real \<times> real \<times> real"
type_synonym pose = "vec3 \<times> quat"

datatype error = IndexError | ShapeError | RandintRangeError

definition vadd :: "vec3 \<Rightarrow> vec3 \<Rightarrow> vec3" where
  "vadd a b = (case a of (ax, ay, az) \<Rightarrow> case b of (bx, by, bz) \<Rightarrow> (ax + bx, ay + by, az + bz))"

definition vsub :: "vec3 \<Rightarrow> vec3 \<Rightarrow> vec3" where
  "vsub a b = (case a of (ax, ay, az) \<Rightarrow> case b of (bx, by, bz) \<Rightarrow> (ax - bx, ay - by, az - bz))"

definition vx :: "vec3 \<Rightarrow> real" where "vx a = fst a"
definition vy :: "vec3 \<Rightarrow> real" where "vy a = fst (snd a)"
definition vz :: "vec3 \<Rightarrow> real" where "vz a = snd (snd a)"

subsection \<open>Errors and tensor indexing\<close>

definition ebind :: "error + 'a \<Rightarrow> ('a \<Rightarrow> error + 'b) \<Rightarrow> error + 'b" where
  "ebind m f = (case m of Inl e \<Rightarrow> Inl e | Inr x \<Rightarrow> f x)"

fun emap :: "('a \<Rightarrow> error + 'b) \<Rightarrow> 'a list \<Rightarrow> error + 'b list" where
  "emap f [] = Inr []"
| "emap f (x # xs) = ebind (f x) (\<lambda>y. ebind (emap f xs) (\<lambda>ys. Inr (y # ys)))"

text \<open>\<open>t[i]\<close> for one index: out of range raises.\<close>

definition getitem :: "'a list \<Rightarrow> nat \<Rightarrow> error + 'a" where
  "getitem t i = (if i < length t then Inr (t ! i) else Inl IndexError)"

text \<open>\<open>t[idx]\<close> for an index tensor: one row of the result per entry of \<open>idx\<close>.\<close>

definition index_rows :: "'a list \<Rightarrow> nat list \<Rightarrow> error + 'a list" where
  "index_rows t idx = emap (getitem t) idx"

text \<open>\<open>t[idx] = vals\<close>: the rows named by \<open>idx\<close> are overwritten, in order.\<close>

fun index_put :: "'a list \<Rightarrow> nat list \<Rightarrow> 'a list \<Rightarrow> error + 'a list" where
  "index_put t [] [] = Inr t"
| "index_put t (i # idx) (v # vals) =
     (if i < length t then index_put (t[i := v]) idx vals else Inl IndexError)"
| "index_put t _ _ = Inl ShapeError"

text \<open>
  Elementwise binary operation with broadcasting over the first dimension: equal lengths
  pair up, a single row is repeated, anything else is a shape error.
\<close>

definition broadcast2 :: "('a \<Rightarrow> 'b \<Rightarrow> 'c) \<Rightarrow> 'a list \<Rightarrow> 'b list \<Rightarrow> error + 'c list" where
  "broadcast2 f xs ys =
     (if length xs = length ys then Inr (map2 f xs ys)
      else if length xs = 1 then Inr (map (f (hd xs)) ys)
      else if length ys = 1 then Inr (map (\<lambda>x. f x (hd ys)) xs)
      else Inl ShapeError)"

subsection \<open>The environment object\<close>

record assembly_kit_env =
  num_envs :: nat
  env_origins :: "vec3 list"
  table_offset :: real
  max_episode_length :: int
  episode_length_buf :: "int list"
  symmetry :: "real list"
  kit_ids_per_env :: "nat list"
  kit_default_pos :: "vec3 list"
  kit_target_starting_pos :: "vec3 list list"
  model_target_pos :: "vec3 list list"
  model_target_rot :: "real list list"
  env_model_ids :: "nat list list"
  models_default_pose :: "pose list list"
  models_root_pose :: "pose list list"
  current_target :: "nat list"
  current_target_model_id :: "nat list"
  target_pos :: "vec3 list"
  target_quat :: "quat list"
  target_goal_pos :: "vec3 list"
  target_goal_rot :: "real list"
  hand_pos_w :: "vec3 list"
  hand_rot_w :: "quat list"
  robot_local_grasp_pos :: "vec3 list"
  robot_local_grasp_rot :: "quat list"

text \<open>
  Field by field: \<open>env_origins\<close> is \<open>scene.env_origins\<close>; \<open>table_offset\<close> is
  \<open>cfg.table_offset\<close>; \<open>kit_default_pos\<close> is \<open>kit.data.default_root_state[:, :3]\<close>;
  \<open>env_model_ids\<close> is the \<open>model_ids\<close> entry of \<open>env_assets_info\<close>;
  \<open>models_default_pose ! k\<close> is \<open>models[k].data.default_root_state[:, :7]\<close> and
  \<open>models_root_pose ! k\<close> is \<open>models[k].data.root_state_w[:, :7]\<close>, the pose the
  simulation holds; \<open>current_target\<close> is the single column of \<open>_current_target\<close>;
  \<open>hand_pos_w\<close> and \<open>hand_rot_w\<close> are \<open>robot.data.body_pos_w\<close> and \<open>body_quat_w\<close> at
  \<open>hand_link_idx\<close>.
\<close>

section \<open>Tolerance evaluator\<close>

text \<open>
  \<open>get_target_model_pose\<close>: the model object of each environment's target slot is looked
  up in the Python list \<open>models\<close>; row \<open>idx\<close> of its root state is copied into row \<open>idx\<close>
  of a zero tensor with \<open>num_envs\<close> rows; the environment origins are then subtracted in
  place from the positions.
\<close>

definition zero_pose :: pose where
  "zero_pose = ((0, 0, 0), (0, 0, 0, 0))"

definition get_target_model_pose :: "assembly_kit_env \<Rightarrow> error + pose list" where
  "get_target_model_pose st =
     ebind (index_rows (models_root_pose st) (current_target st)) (\<lambda>target_models.
     ebind (emap (\<lambda>(idx, model).
                ebind (getitem model idx) (\<lambda>row.
                if idx < num_envs st then Inr row else Inl IndexError))
              (zip [0..<length target_models] target_models)) (\<lambda>rows.
     let target_model_pose = rows @ replicate (num_envs st - length rows) zero_pose in
     if length (env_origins st) = num_envs st then
       Inr (map2 (\<lambda>p orig. (vsub (fst p) orig, snd p)) target_model_pose (env_origins st))
     else if length (env_origins st) = 1 then
       Inr (map (\<lambda>p. (vsub (fst p) (hd (env_origins st)), snd p)) target_model_pose)
     else Inl ShapeError))"

text \<open>
  The \<open>%\<close> of two float tensors is \<open>torch.remainder\<close>: the result takes the sign of the
  divisor. (For a zero divisor the floating-point result is NaN, which the reals do not
  have; symmetry periods are positive.)
\<close>

definition remainder :: "real \<Rightarrow> real \<Rightarrow> real" where
  "remainder x p = x - p * of_int \<lfloor>x / p\<rfloor>"

text \<open>
  The adjustment \<open>torch.where(rot_diff > half_symmetry, symmetry_val - rot_diff, rot_diff)\<close>
  for one environment.
\<close>

definition fold_half_symmetry :: "real \<Rightarrow> real \<Rightarrow> real" where
  "fold_half_symmetry rot_diff symmetry_val =
     (if rot_diff > symmetry_val / 2 then symmetry_val - rot_diff else rot_diff)"

text \<open>
  \<open>is_success\<close> with its three tolerances as arguments. \<open>euler_z\<close> stands for the third
  component of \<open>euler_xyz_from_quat\<close> (imported from the math utilities).
\<close>

definition is_success_eps ::
  "(quat \<Rightarrow> real) \<Rightarrow> real \<Rightarrow> real \<Rightarrow> real \<Rightarrow> assembly_kit_env \<Rightarrow> error + bool list" where
  "is_success_eps euler_z pos_eps rot_eps height_eps st =
     ebind (get_target_model_pose st) (\<lambda>target_model_pose.
     ebind (broadcast2 (\<lambda>g p. (vx g - vx (fst p), vy g - vy (fst p)))
              (target_goal_pos st) target_model_pose) (\<lambda>pos_diff.
     let pos_diff_norm = map (\<lambda>d. sqrt (fst d * fst d + snd d * snd d)) pos_diff;
         pos_correct = map (\<lambda>n. n < pos_eps) pos_diff_norm;
         target_model_z_rot = map (\<lambda>p. euler_z (snd p)) target_model_pose
     in
     ebind (broadcast2 (\<lambda>z g. \<bar>z - g\<bar>) target_model_z_rot (target_goal_rot st)) (\<lambda>abs_diff.
     ebind (index_rows (symmetry st) (current_target_model_id st)) (\<lambda>symmetry_val.
     ebind (broadcast2 remainder abs_diff symmetry_val) (\<lambda>rot_diff.
     ebind (broadcast2 fold_half_symmetry rot_diff symmetry_val) (\<lambda>rot_diff'.
     let rot_correct = map (\<lambda>r. r < rot_eps) rot_diff';
         height_correct = map (\<lambda>p. vz (fst p) < height_eps) target_model_pose
     in
     ebind (broadcast2 (\<and>) pos_correct rot_correct) (\<lambda>pr.
     broadcast2 (\<and>) pr height_correct)))))))"

definition radians :: "real \<Rightarrow> real" where
  "radians d = d * pi / 180"

text \<open>The call \<open>self.is_success()\<close> with the default tolerances of the signature.\<close>

definition is_success :: "(quat \<Rightarrow> real) \<Rightarrow> assembly_kit_env \<Rightarrow> error + bool list" where
  "is_success euler_z st = is_success_eps euler_z (2 / 100) (radians 4) (3 / 1000) st"

definition compute_rewards :: "(quat \<Rightarrow> real) \<Rightarrow> assembly_kit_env \<Rightarrow> error + int list" where
  "compute_rewards euler_z st =
     ebind (is_success euler_z st) (\<lambda>success_mask.
     let ones = map (\<lambda>_. 1) success_mask
     in Inr (map2 (\<lambda>s one. if s then one else - one) success_mask ones))"

definition get_dones :: "(quat \<Rightarrow> real) \<Rightarrow> assembly_kit_env \<Rightarrow> error + (bool list \<times> bool list)" where
  "get_dones euler_z st =
     (let time_out = map (\<lambda>e. e \<ge> max_episode_length st - 1) (episode_length_buf st)
      in ebind (is_success euler_z st) (\<lambda>terminated. Inr (terminated, time_out)))"

section \<open>TCP resolver\<close>

text \<open>
  Modelled from the spec: the quaternion product that \<open>tf_combine\<close> rotates a rotation
  with (the Hamilton product on \<open>(w, x, y, z)\<close>); the library function is not part of the
  source file.
\<close>

definition quat_mul :: "quat \<Rightarrow> quat \<Rightarrow> quat" where
  "quat_mul a b =
     (case a of (w1, x1, y1, z1) \<Rightarrow> case b of (w2, x2, y2, z2) \<Rightarrow>
        (w1 * w2 - x1 * x2 - y1 * y2 - z1 * z2,
         w1 * x2 + x1 * w2 + y1 * z2 - z1 * y2,
         w1 * y2 - x1 * z2 + y1 * w2 + z1 * x2,
         w1 * z2 + x1 * y2 - y1 * x2 + z1 * w2))"

definition cross :: "vec3 \<Rightarrow> vec3 \<Rightarrow> vec3" where
  "cross a b =
     (case a of (ax, ay, az) \<Rightarrow> case b of (bx, by, bz) \<Rightarrow>
        (ay * bz - az * by, az * bx - ax * bz, ax * by - ay * bx))"

definition vscale :: "real \<Rightarrow> vec3 \<Rightarrow> vec3" where
  "vscale k a = (case a of (ax, ay, az) \<Rightarrow> (k * ax, k * ay, k * az))"

text \<open>
  Modelled from the spec: the rotation of a vector by a unit quaternion, with which
  \<open>tf_combine\<close> rotates a position; the library function is not part of the source file.
\<close>

definition quat_apply :: "quat \<Rightarrow> vec3 \<Rightarrow> vec3" where
  "quat_apply q v =
     (case q of (w, x, y, z) \<Rightarrow>
        let t = vscale 2 (cross (x, y, z) v)
        in vadd (vadd v (vscale w t)) (cross (x, y, z) t))"

text \<open>
  Modelled from the spec: \<open>tf_combine\<close> is imported from the simulator's transformation
  utilities and is not part of the source file. Section 4.1 describes it as the standard
  rigid-transform composition: the rotation of B is rotated by the rotation of A, the
  position of B is rotated by A and translated by the position of A. Rotations are unit
  quaternions \<open>(w, x, y, z)\<close> under the Hamilton product.
\<close>

definition tf_combine :: "quat \<Rightarrow> vec3 \<Rightarrow> quat \<Rightarrow> vec3 \<Rightarrow> quat \<times> vec3" where
  "tf_combine q1 t1 q2 t2 = (quat_mul q1 q2, vadd (quat_apply q1 t2) t1)"

definition quat_identity :: quat where
  "quat_identity = (1, 0, 0, 0)"

text \<open>
  \<open>_compute_tcp_world\<close>: \<open>env_ids = None\<close> stands for all environments. The wrist pose,
  the cached local grasp pose and the origins are indexed by \<open>env_ids\<close>, so the result has
  one row per entry of \<open>env_ids\<close>.
\<close>

definition compute_tcp_world ::
  "assembly_kit_env \<Rightarrow> nat list option \<Rightarrow> error + (vec3 list \<times> quat list)" where
  "compute_tcp_world st env_ids_opt =
     (let env_ids = (case env_ids_opt of None \<Rightarrow> [0..<num_envs st] | Some ids \<Rightarrow> ids) in
      ebind (index_rows (hand_pos_w st) env_ids) (\<lambda>hand_pos_world.
      ebind (index_rows (hand_rot_w st) env_ids) (\<lambda>hand_rot_world.
      ebind (index_rows (robot_local_grasp_rot st) env_ids) (\<lambda>local_rot.
      ebind (index_rows (robot_local_grasp_pos st) env_ids) (\<lambda>local_pos.
      let combined = map2 (\<lambda>(hq, hp) (lq, lp). tf_combine hq hp lq lp)
                       (zip hand_rot_world hand_pos_world) (zip local_rot local_pos);
          global_tcp_rot = map fst combined;
          global_tcp_pos_world = map snd combined
      in
      ebind (index_rows (env_origins st) env_ids) (\<lambda>origins.
      let tcp_pos_env = map2 vsub global_tcp_pos_world origins
      in Inr (tcp_pos_env, global_tcp_rot)))))))"

section \<open>Episode sampler\<close>

text \<open>
  The random source is explicit: each field gives, for the batch position \<open>b\<close>, the raw
  value behind one of the five draws of \<open>sample_models_for_envs\<close>. An integer draw in
  \<open>[low, high)\<close> reduces the raw value into the range; \<open>torch.randint\<close> raises on an
  empty range. The two \<open>torch.rand\<close> draws are values in \<open>[0, 1)\<close>.
\<close>

record draws =
  draw_choice :: "nat \<Rightarrow> nat"
  draw_sampled_idx :: "nat \<Rightarrow> nat"
  draw_rot :: "nat \<Rightarrow> real"
  draw_pick :: "nat \<Rightarrow> real"
  draw_cols :: "nat \<Rightarrow> nat"

definition randint :: "int \<Rightarrow> int \<Rightarrow> nat \<Rightarrow> (nat \<Rightarrow> nat) \<Rightarrow> error + nat list" where
  "randint low high n raw =
     (if low < high then Inr (map (\<lambda>b. nat (low + int (raw b) mod (high - low))) [0..<n])
      else Inl RandintRangeError)"

text \<open>\<open>t.shape[1]\<close> of a dense matrix.\<close>

definition shape1 :: "'a list list \<Rightarrow> error + nat" where
  "shape1 t = (case t of [] \<Rightarrow> Inl IndexError | row # _ \<Rightarrow> Inr (length row))"

text \<open>\<open>t[rows, cols]\<close> with two index tensors of the same length: entry by entry.\<close>

definition index2 :: "'a list list \<Rightarrow> nat list \<Rightarrow> nat list \<Rightarrow> error + 'a list" where
  "index2 t rows cols =
     emap (\<lambda>(r, c). ebind (getitem t r) (\<lambda>row. getitem row c)) (zip rows cols)"

text \<open>\<open>t[idx_b, others_idx]\<close>: row \<open>b\<close> of the result reads row \<open>b\<close> of \<open>t\<close> at the columns \<open>others_idx[b]\<close>.\<close>

definition index_cols :: "'a list list \<Rightarrow> nat list list \<Rightarrow> error + 'a list list" where
  "index_cols t others_idx =
     emap (\<lambda>(b, cs). ebind (getitem t b) (\<lambda>row. index_rows row cs))
       (zip [0..<length others_idx] others_idx)"

text \<open>\<open>xs[mask]\<close> for a boolean mask.\<close>

definition select :: "bool list \<Rightarrow> 'a list \<Rightarrow> 'a list" where
  "select keep xs = map snd (filter fst (zip keep xs))"

text \<open>\<open>t[idx, cols] = vals\<close> where the column slice is a component of the row.\<close>

fun index_upd :: "('v \<Rightarrow> 'a \<Rightarrow> 'a) \<Rightarrow> 'a list \<Rightarrow> nat list \<Rightarrow> 'v list \<Rightarrow> error + 'a list" where
  "index_upd upd t [] [] = Inr t"
| "index_upd upd t (i # idx) (v # vals) =
     (if i < length t then index_upd upd (t[i := upd v (t ! i)]) idx vals else Inl IndexError)"
| "index_upd upd t _ _ = Inl ShapeError"

definition set_pos :: "vec3 \<Rightarrow> pose \<Rightarrow> pose" where
  "set_pos p row = (p, snd row)"

definition set_quat :: "quat \<Rightarrow> pose \<Rightarrow> pose" where
  "set_quat q row = (fst row, q)"

text \<open>
  The staging coordinate of the distractor that is moved to the side:
  \<open>[-table_offset, 0.2, 0.1]\<close>.
\<close>

definition side_pos :: "assembly_kit_env \<Rightarrow> vec3" where
  "side_pos st = (- table_offset st, 2 / 10, 1 / 10)"

text \<open>
  The first half of \<open>sample_models_for_envs\<close>, up to the flattening: everything that is
  computed per batch position before the per-model write loop.
\<close>

record placement =
  p_kit_pos_w :: "vec3 list"
  p_choice :: "nat list"
  p_current_target :: "nat list"
  p_current_target_model_id :: "nat list"
  p_others_idx :: "nat list list"
  p_offsets :: "vec3 list"
  p_target_pos :: "vec3 list"
  p_target_quat :: "quat list"
  p_target_goal_pos :: "vec3 list"
  p_target_goal_rot :: "real list"
  p_mask_other_to_side :: "bool list list"
  p_others_pos_w :: "vec3 list list"
  p_others_rot_w :: "real list list"

definition sample_placement ::
  "(real \<Rightarrow> quat) \<Rightarrow> draws \<Rightarrow> nat list \<Rightarrow> assembly_kit_env \<Rightarrow> error + placement" where
  "sample_placement quat_from_yaw rng env_ids st =
     (let n = length env_ids in
      ebind (shape1 (model_target_pos st)) (\<lambda>num_models.
      ebind (index_rows (kit_ids_per_env st) env_ids) (\<lambda>kit_ids.
      ebind (index_rows (kit_default_pos st) env_ids) (\<lambda>kit_def.
      ebind (index_rows (env_origins st) env_ids) (\<lambda>origins.
      let kit_pos_w = map2 vadd kit_def origins in
      ebind (index_rows (model_target_pos st) kit_ids) (\<lambda>model_rel_pos.
      ebind (index_rows (model_target_rot st) kit_ids) (\<lambda>model_rel_rot.
      ebind (randint 0 (int num_models) n (draw_choice rng)) (\<lambda>choice.
      ebind (index_put (current_target st) env_ids choice) (\<lambda>current_target'.
      ebind (index2 (env_model_ids st) [0..<length current_target'] current_target')
        (\<lambda>current_target_model_id'.
      let others_idx = map (\<lambda>c. filter (\<lambda>col. col \<noteq> c) [0..<num_models]) choice in
      ebind (shape1 (kit_target_starting_pos st)) (\<lambda>num_start.
      ebind (randint 0 (int num_start) n (draw_sampled_idx rng)) (\<lambda>sampled_idx.
      ebind (index2 (kit_target_starting_pos st) kit_ids sampled_idx) (\<lambda>offsets.
      let target_pos = map2 vadd kit_pos_w offsets;
          rot_t = map (\<lambda>b. draw_rot rng b * 2 * pi) [0..<n];
          target_quat = map quat_from_yaw rot_t
      in
      ebind (index2 model_rel_pos [0..<length model_rel_pos] choice) (\<lambda>target_goal_pos'.
      ebind (index2 model_rel_rot [0..<length model_rel_pos] choice) (\<lambda>target_goal_rot'.
      ebind (index_cols model_rel_pos others_idx) (\<lambda>others_pos.
      ebind (index_cols model_rel_rot others_idx) (\<lambda>others_rot.
      let do_pick = map (\<lambda>b. draw_pick rng b < 1 / 2) [0..<n] in
      ebind (randint 0 (int num_models - 1) n (draw_cols rng)) (\<lambda>cols.
      let mask_other_to_side =
            map (\<lambda>b. map (\<lambda>j. do_pick ! b \<and> cols ! b = j) [0..<num_models - 1]) [0..<n];
          others_pos' =
            map2 (\<lambda>mrow prow. map2 (\<lambda>m p. if m then side_pos st else p) mrow prow)
              mask_other_to_side others_pos;
          others_pos_w = map2 (\<lambda>k prow. map (\<lambda>p. vadd k p) prow) kit_pos_w others_pos'
      in
      Inr \<lparr> p_kit_pos_w = kit_pos_w, p_choice = choice,
            p_current_target = current_target',
            p_current_target_model_id = current_target_model_id',
            p_others_idx = others_idx, p_offsets = offsets,
            p_target_pos = target_pos, p_target_quat = target_quat,
            p_target_goal_pos = target_goal_pos', p_target_goal_rot = target_goal_rot',
            p_mask_other_to_side = mask_other_to_side,
            p_others_pos_w = others_pos_w, p_others_rot_w = others_rot \<rparr>))))))))))))))))))"

text \<open>
  One iteration of the loop \<open>for model_idx in range(num_models)\<close>. \<open>default\<close> has one row
  per entry of \<open>env_ids\<close>; the two masked assignments index it with the environment ids
  \<open>envs_t\<close> and \<open>envs_o\<close>; \<open>write_root_pose_to_sim(default[:, :7], env_ids)\<close> stores row \<open>b\<close>
  of \<open>default\<close> as the pose of environment \<open>env_ids[b]\<close>.
\<close>

definition write_model ::
  "(real \<Rightarrow> quat) \<Rightarrow> assembly_kit_env \<Rightarrow> nat list \<Rightarrow> placement \<Rightarrow> nat \<Rightarrow>
   pose list list \<Rightarrow> error + pose list list" where
  "write_model quat_from_yaw st env_ids pl model_idx roots =
     (let num_others = (case p_others_idx pl of [] \<Rightarrow> 0 | r # _ \<Rightarrow> length r);
          envs_o_flat = concat (map (\<lambda>e. replicate num_others e) env_ids);
          idx_o_flat = concat (p_others_idx pl);
          pos_o_flat = concat (p_others_pos_w pl);
          rot_o_flat = concat (p_others_rot_w pl)
      in
      ebind (getitem (models_default_pose st) model_idx) (\<lambda>model_default.
      ebind (index_rows model_default env_ids) (\<lambda>default.
      let mask_t = map (\<lambda>c. c = model_idx) (p_choice pl) in
      ebind (if (\<exists>m \<in> set mask_t. m) then
               (let envs_t = select mask_t env_ids;
                    poses_t = select mask_t (p_target_pos pl);
                    quats_t = select mask_t (p_target_quat pl)
                in ebind (index_upd set_pos default envs_t poses_t) (\<lambda>d.
                   index_upd set_quat d envs_t quats_t))
             else Inr default) (\<lambda>default1.
      let mask_o = map (\<lambda>c. c = model_idx) idx_o_flat in
      ebind (if (\<exists>m \<in> set mask_o. m) then
               (let envs_o = select mask_o envs_o_flat;
                    poses_o = select mask_o pos_o_flat;
                    rots_o = select mask_o rot_o_flat;
                    quats_o = map quat_from_yaw rots_o
                in ebind (index_upd set_pos default1 envs_o poses_o) (\<lambda>d.
                   index_upd set_quat d envs_o quats_o))
             else Inr default1) (\<lambda>default2.
      ebind (getitem roots model_idx) (\<lambda>root.
      ebind (index_put root env_ids default2) (\<lambda>root'.
      Inr (roots[model_idx := root']))))))))"

fun write_models ::
  "(real \<Rightarrow> quat) \<Rightarrow> assembly_kit_env \<Rightarrow> nat list \<Rightarrow> placement \<Rightarrow> nat list \<Rightarrow>
   pose list list \<Rightarrow> error + pose list list" where
  "write_models quat_from_yaw st env_ids pl [] roots = Inr roots"
| "write_models quat_from_yaw st env_ids pl (model_idx # rest) roots =
     ebind (write_model quat_from_yaw st env_ids pl model_idx roots)
       (\<lambda>roots'. write_models quat_from_yaw st env_ids pl rest roots')"

text \<open>
  \<open>sample_models_for_envs\<close>: \<open>quat_from_yaw r\<close> stands for \<open>quat_from_euler_xyz(0, 0, r)\<close>
  (imported from the math utilities). The episode-state attributes are assigned before
  the write loop; an exception abandons the call.
\<close>

definition sample_models_for_envs ::
  "(real \<Rightarrow> quat) \<Rightarrow> draws \<Rightarrow> nat list \<Rightarrow> assembly_kit_env \<Rightarrow> error + assembly_kit_env" where
  "sample_models_for_envs quat_from_yaw rng env_ids st =
     ebind (sample_placement quat_from_yaw rng env_ids st) (\<lambda>pl.
     ebind (shape1 (model_target_pos st)) (\<lambda>num_models.
     ebind (write_models quat_from_yaw st env_ids pl [0..<num_models] (models_root_pose st))
       (\<lambda>roots'.
     Inr (st \<lparr> current_target := p_current_target pl,
               current_target_model_id := p_current_target_model_id pl,
               target_pos := p_offsets pl,
               target_quat := p_target_quat pl,
               target_goal_pos := p_target_goal_pos pl,
               target_goal_rot := p_target_goal_rot pl,
               models_root_pose := roots' \<rparr>))))"

section \<open>Per-environment reading of the batched code\<close>

text \<open>
  The tensors of a consistent environment object all have \<open>num_envs\<close> rows, the target
  slots name existing models and the shape-type ids name existing symmetry entries.
\<close>

definition well_formed :: "assembly_kit_env \<Rightarrow> bool" where
  "well_formed st \<longleftrightarrow>
     length (env_origins st) = num_envs st \<and>
     length (current_target st) = num_envs st \<and>
     length (current_target_model_id st) = num_envs st \<and>
     length (target_goal_pos st) = num_envs st \<and>
     length (target_goal_rot st) = num_envs st \<and>
     (\<forall>k \<in> set (current_target st). k < length (models_root_pose st)) \<and>
     (\<forall>m \<in> set (models_root_pose st). length m = num_envs st) \<and>
     (\<forall>s \<in> set (current_target_model_id st). s < length (symmetry st))"

definition target_pose_env :: "assembly_kit_env \<Rightarrow> nat \<Rightarrow> pose" where
  "target_pose_env st i =
     (let p = models_root_pose st ! (current_target st ! i) ! i
      in (vsub (fst p) (env_origins st ! i), snd p))"

definition xy_distance :: "vec3 \<Rightarrow> vec3 \<Rightarrow> real" where
  "xy_distance a b = sqrt ((vx a - vx b)\<^sup>2 + (vy a - vy b)\<^sup>2)"

definition folded_rot_error :: "(quat \<Rightarrow> real) \<Rightarrow> assembly_kit_env \<Rightarrow> nat \<Rightarrow> real" where
  "folded_rot_error euler_z st i =
     (let P = symmetry st ! (current_target_model_id st ! i);
          d = remainder \<bar>euler_z (snd (target_pose_env st i)) - target_goal_rot st ! i\<bar> P
      in if d > P / 2 then P - d else d)"

definition success_spec :: "(quat \<Rightarrow> real) \<Rightarrow> assembly_kit_env \<Rightarrow> nat \<Rightarrow> bool" where
  "success_spec euler_z st i \<longleftrightarrow>
     xy_distance (fst (target_pose_env st i)) (target_goal_pos st ! i) < 2 / 100 \<and>
     folded_rot_error euler_z st i < radians 4 \<and>
     vz (fst (target_pose_env st i)) < 3 / 1000"

definition tcp_well_formed :: "assembly_kit_env \<Rightarrow> bool" where
  "tcp_well_formed st \<longleftrightarrow>
     length (env_origins st) = num_envs st \<and>
     length (hand_pos_w st) = num_envs st \<and>
     length (hand_rot_w st) = num_envs st \<and>
     length (robot_local_grasp_pos st) = num_envs st \<and>
     length (robot_local_grasp_rot st) = num_envs st"

definition world_tcp :: "assembly_kit_env \<Rightarrow> nat \<Rightarrow> quat \<times> vec3" where
  "world_tcp st e =
     tf_combine (hand_rot_w st ! e) (hand_pos_w st ! e)
       (robot_local_grasp_rot st ! e) (robot_local_grasp_pos st ! e)"

section \<open>Concrete scenarios\<close>

text \<open>
  Two environments that share one kit variant with two slots; the kit's default position
  is the \<open>(0.55, 0, 0.007)\<close> of \<open>_get_kit_cfg\<close>, the second environment's origin is
  \<open>(10, 0, 0)\<close>. Both targets sit within tolerance of their stored goals, the second
  one a thousand units below the kit. \<open>demo_euler_z\<close> stands in for the imported
  \<open>euler_xyz_from_quat\<close>.
\<close>

definition demo_env :: assembly_kit_env where
  "demo_env =
     \<lparr> num_envs = 2,
       env_origins = [(0, 0, 0), (10, 0, 0)],
       table_offset = 1 / 2,
       max_episode_length = 100,
       episode_length_buf = [0, 99],
       symmetry = [1, 2],
       kit_ids_per_env = [0, 0],
       kit_default_pos = [(55 / 100, 0, 7 / 1000), (55 / 100, 0, 7 / 1000)],
       kit_target_starting_pos = [[(0, 3 / 10, 1 / 10)]],
       model_target_pos = [[(1 / 10, 0, 0), (2 / 10, 0, 0)]],
       model_target_rot = [[0, 0]],
       env_model_ids = [[0, 1], [0, 1]],
       models_default_pose =
         [[((55 / 100, 0, 1 / 10), (0, 0, 0, 1)), ((55 / 100, 0, 1 / 10), (0, 0, 0, 1))],
          [((55 / 100, 0, 1 / 10), (0, 0, 0, 1)), ((55 / 100, 0, 1 / 10), (0, 0, 0, 1))]],
       models_root_pose =
         [[((1 / 10, 5 / 1000, 1 / 1000), (1, 0, 0, 0)), ((1055 / 100, 0, 1 / 10), (1, 0, 0, 0))],
          [((75 / 100, 0, 7 / 1000), (1, 0, 0, 0)), ((102 / 10, 0, - 1000), (1, 0, 0, 0))]],
       current_target = [0, 1],
       current_target_model_id = [0, 1],
       target_pos = [(0, 3 / 10, 1 / 10), (0, 3 / 10, 1 / 10)],
       target_quat = [(1, 0, 0, 0), (1, 0, 0, 0)],
       target_goal_pos = [(1 / 10, 0, 0), (2 / 10, 0, 0)],
       target_goal_rot = [0, 0],
       hand_pos_w = [(0, 0, 0), (3, 4, 5)],
       hand_rot_w = [(1, 0, 0, 0), (0, 0, 0, 1)],
       robot_local_grasp_pos = [(0, 4 / 100, 1 / 10), (0, 4 / 100, 1 / 10)],
       robot_local_grasp_rot = [(0, 1, 0, 0), (0, 1, 0, 0)] \<rparr>"

definition demo_euler_z :: "quat \<Rightarrow> real" where
  "demo_euler_z q = snd (snd (snd q))"

text \<open>The demonstration object with a goal rotation of \<open>0.51\<close> for environment 0.\<close>

definition demo_rot_env :: assembly_kit_env where
  "demo_rot_env = demo_env \<lparr> target_goal_rot := [51 / 100, 0] \<rparr>"

subsection \<open>Scenarios for the sampler\<close>

text \<open>
  Stand-ins for the imported \<open>quat_from_euler_xyz(0, 0, r)\<close> and for the random draws, a
  kit with a single slot, and readers of the episode state a call leaves behind.
\<close>

definition demo_yaw :: "real \<Rightarrow> quat" where
  "demo_yaw r = (1, 0, 0, r)"

definition demo_rng :: draws where
  "demo_rng = \<lparr> draw_choice = (\<lambda>b. 0), draw_sampled_idx = (\<lambda>b. 0), draw_rot = (\<lambda>b. 0),
                 draw_pick = (\<lambda>b. 9 / 10), draw_cols = (\<lambda>b. 0) \<rparr>"

definition demo_rng_pick :: draws where
  "demo_rng_pick = demo_rng \<lparr> draw_pick := (\<lambda>b. 1 / 10) \<rparr>"

definition demo_rng_mixed :: draws where
  "demo_rng_mixed = demo_rng \<lparr> draw_choice := (\<lambda>b. b) \<rparr>"

definition demo_single_slot_env :: assembly_kit_env where
  "demo_single_slot_env =
     \<lparr> num_envs = 1,
       env_origins = [(0, 0, 0)],
       table_offset = 1 / 2,
       max_episode_length = 100,
       episode_length_buf = [0],
       symmetry = [1],
       kit_ids_per_env = [0],
       kit_default_pos = [(55 / 100, 0, 7 / 1000)],
       kit_target_starting_pos = [[(0, 3 / 10, 1 / 10)]],
       model_target_pos = [[(1 / 10, 0, 0)]],
       model_target_rot = [[0]],
       env_model_ids = [[0]],
       models_default_pose = [[((55 / 100, 0, 1 / 10), (0, 0, 0, 1))]],
       models_root_pose = [[((55 / 100, 0, 1 / 10), (0, 0, 0, 1))]],
       current_target = [0],
       current_target_model_id = [0],
       target_pos = [],
       target_quat = [],
       target_goal_pos = [],
       target_goal_rot = [],
       hand_pos_w = [(0, 0, 0)],
       hand_rot_w = [(1, 0, 0, 0)],
       robot_local_grasp_pos = [(0, 4 / 100, 1 / 10)],
       robot_local_grasp_rot = [(1, 0, 0, 0)] \<rparr>"

definition stored_goal_pos :: "error + assembly_kit_env \<Rightarrow> nat \<Rightarrow> error + vec3" where
  "stored_goal_pos r e = ebind r (\<lambda>st. getitem (target_goal_pos st) e)"

definition stored_goal_rot :: "error + assembly_kit_env \<Rightarrow> nat \<Rightarrow> error + real" where
  "stored_goal_rot r e = ebind r (\<lambda>st. getitem (target_goal_rot st) e)"

definition stored_target :: "error + assembly_kit_env \<Rightarrow> nat \<Rightarrow> error + nat" where
  "stored_target r e = ebind r (\<lambda>st. getitem (current_target st) e)"

definition written_pose :: "error + assembly_kit_env \<Rightarrow> nat \<Rightarrow> nat \<Rightarrow> error + pose" where
  "written_pose r model_idx e =
     ebind r (\<lambda>st. ebind (getitem (models_root_pose st) model_idx) (\<lambda>m. getitem m e))"

definition demo_placement :: placement where
  "demo_placement = projr (sample_placement demo_yaw demo_rng_pick [0, 1] demo_env)"

section \<open>Verified properties\<close>

subsection \<open>Helper facts on the tensor operations\<close>

lemma ebind_Inr [simp]: "ebind (Inr x) f = f x" by (simp add: ebind_def)
lemma ebind_Inl [simp]: "ebind (Inl e) f = Inl e" by (simp add: ebind_def)

lemma emap_all_ok:
  "(\<And>x. x \<in> set xs \<Longrightarrow> f x = Inr (g x)) \<Longrightarrow> emap f xs = Inr (map g xs)"
  by (induction xs) simp_all

lemma index_rows_ok:
  "(\<And>i. i \<in> set idx \<Longrightarrow> i < length t) \<Longrightarrow> index_rows t idx = Inr (map (\<lambda>i. t ! i) idx)"
  unfolding index_rows_def by (rule emap_all_ok) (simp add: getitem_def)

lemma broadcast2_same:
  "length xs = length ys \<Longrightarrow> broadcast2 f xs ys = Inr (map2 f xs ys)"
  by (simp add: broadcast2_def)

lemma get_target_model_pose_wf:
  assumes "well_formed st"
  shows "get_target_model_pose st = Inr (map (target_pose_env st) [0..<num_envs st])"
proof -
  let ?N = "num_envs st"
  let ?tm = "map (\<lambda>k. models_root_pose st ! k) (current_target st)"
  let ?f = "\<lambda>(idx, model). ebind (getitem model idx) (\<lambda>row.
              if idx < ?N then Inr row else Inl IndexError)"
  from assms have len: "length (current_target st) = ?N" "length (env_origins st) = ?N"
    and tgt: "\<And>k. k \<in> set (current_target st) \<Longrightarrow> k < length (models_root_pose st)"
    and rows: "\<And>m. m \<in> set (models_root_pose st) \<Longrightarrow> length m = ?N"
    by (auto simp: well_formed_def)
  have a: "index_rows (models_root_pose st) (current_target st) = Inr ?tm"
    by (rule index_rows_ok) (rule tgt)
  have b: "emap ?f (zip [0..<?N] ?tm)
             = Inr (map (\<lambda>(idx, model). model ! idx) (zip [0..<?N] ?tm))"
  proof (rule emap_all_ok)
    fix x assume x: "x \<in> set (zip [0..<?N] ?tm)"
    obtain idx model where xe: "x = (idx, model)" by (cases x)
    from x xe have i: "idx < ?N" and "model \<in> set ?tm"
      by (auto dest: set_zip_leftD set_zip_rightD)
    then have "idx < length model" using rows tgt by auto
    with i show "?f x = Inr (case x of (idx, model) \<Rightarrow> model ! idx)"
      by (simp add: xe getitem_def)
  qed
  have c: "map2 (\<lambda>p orig. (vsub (fst p) orig, snd p))
             (map (\<lambda>(idx, model). model ! idx) (zip [0..<?N] ?tm)) (env_origins st)
           = map (target_pose_env st) [0..<?N]"
    using len by (intro nth_equalityI) (simp_all add: target_pose_env_def Let_def)
  have d: "length ?tm = ?N" using len by simp
  have e: "length (map (\<lambda>(idx, model). model ! idx) (zip [0..<?N] ?tm)) = ?N"
    using len by simp
  show ?thesis
    unfolding get_target_model_pose_def a ebind_Inr d b Let_def e
    using len c by simp
qed

lemma pos_check_eq:
  "sqrt ((vx g - vx p) * (vx g - vx p) + (vy g - vy p) * (vy g - vy p)) = xy_distance p g"
  by (simp add: xy_distance_def power2_eq_square algebra_simps)

lemma rot_check_eq:
  "fold_half_symmetry
     (remainder \<bar>euler_z (snd (target_pose_env st i)) - target_goal_rot st ! i\<bar>
        (symmetry st ! (current_target_model_id st ! i)))
     (symmetry st ! (current_target_model_id st ! i)) = folded_rot_error euler_z st i"
  by (simp add: folded_rot_error_def fold_half_symmetry_def Let_def)

lemma is_success_eps_wf:
  assumes "well_formed st"
  shows "is_success_eps euler_z pos_eps rot_eps height_eps st = Inr (map (\<lambda>i.
           xy_distance (fst (target_pose_env st i)) (target_goal_pos st ! i) < pos_eps \<and>
           folded_rot_error euler_z st i < rot_eps \<and>
           vz (fst (target_pose_env st i)) < height_eps) [0..<num_envs st])"
proof -
  let ?N = "num_envs st"
  from assms have len: "length (current_target_model_id st) = ?N"
      "length (target_goal_pos st) = ?N" "length (target_goal_rot st) = ?N"
    and sym: "\<And>s. s \<in> set (current_target_model_id st) \<Longrightarrow> s < length (symmetry st)"
    by (auto simp: well_formed_def)
  have s: "index_rows (symmetry st) (current_target_model_id st)
             = Inr (map (\<lambda>s. symmetry st ! s) (current_target_model_id st))"
    by (rule index_rows_ok) (rule sym)
  have "is_success_eps euler_z pos_eps rot_eps height_eps st = Inr (map (\<lambda>i.
          (sqrt ((vx (target_goal_pos st ! i) - vx (fst (target_pose_env st i)))
                 * (vx (target_goal_pos st ! i) - vx (fst (target_pose_env st i)))
               + (vy (target_goal_pos st ! i) - vy (fst (target_pose_env st i)))
                 * (vy (target_goal_pos st ! i) - vy (fst (target_pose_env st i)))) < pos_eps
           \<and> fold_half_symmetry
               (remainder \<bar>euler_z (snd (target_pose_env st i)) - target_goal_rot st ! i\<bar>
                  (symmetry st ! (current_target_model_id st ! i)))
               (symmetry st ! (current_target_model_id st ! i)) < rot_eps)
           \<and> vz (fst (target_pose_env st i)) < height_eps) [0..<?N])"
    unfolding is_success_eps_def get_target_model_pose_wf[OF assms] s
      ebind_Inr Let_def
    using len
    by (simp add: broadcast2_same del: of_nat_less_iff) (intro nth_equalityI; simp)
  then show ?thesis
    unfolding pos_check_eq rot_check_eq by simp
qed

lemma is_success_wf:
  assumes "well_formed st"
  shows "is_success euler_z st = Inr (map (success_spec euler_z st) [0..<num_envs st])"
  unfolding is_success_def is_success_eps_wf[OF assms] success_spec_def by simp




lemma demo_well_formed: "well_formed demo_env"
  by (simp add: well_formed_def demo_env_def)

lemma xy_distance_lessI:
  assumes "0 < e" and "(vx a - vx b)\<^sup>2 + (vy a - vy b)\<^sup>2 < e\<^sup>2"
  shows "xy_distance a b < e"
proof -
  from assms(2) have "sqrt ((vx a - vx b)\<^sup>2 + (vy a - vy b)\<^sup>2) < sqrt (e\<^sup>2)"
    by (simp only: real_sqrt_less_iff)
  with assms(1) show ?thesis by (simp add: xy_distance_def)
qed

lemma remainder_small: "0 \<le> x \<Longrightarrow> x < p \<Longrightarrow> remainder x p = x"
proof -
  assume a: "0 \<le> x" "x < p"
  then have "0 \<le> x / p" "x / p < 1" by simp_all
  then have "\<lfloor>x / p\<rfloor> = 0" by linarith
  then show ?thesis by (simp add: remainder_def)
qed

lemma demo_target_pose:
  "target_pose_env demo_env 0 = ((1 / 10, 5 / 1000, 1 / 1000), (1, 0, 0, 0))"
  "target_pose_env demo_env 1 = ((2 / 10, 0, - 1000), (1, 0, 0, 0))"
  by (simp_all add: target_pose_env_def demo_env_def vsub_def)

lemma demo_folded:
  "folded_rot_error demo_euler_z demo_env 0 = 0"
  "folded_rot_error demo_euler_z demo_env 1 = 0"
proof -
  have a: "demo_euler_z (snd (target_pose_env demo_env 0)) = 0"
      "demo_euler_z (snd (target_pose_env demo_env 1)) = 0"
    by (simp_all only: demo_target_pose) (simp_all add: demo_euler_z_def)
  have b: "target_goal_rot demo_env ! 0 = 0" "target_goal_rot demo_env ! 1 = 0"
    by (simp_all add: demo_env_def)
  have c: "symmetry demo_env ! (current_target_model_id demo_env ! 0) = 1"
      "symmetry demo_env ! (current_target_model_id demo_env ! 1) = 2"
    by (simp_all add: demo_env_def)
  show "folded_rot_error demo_euler_z demo_env 0 = 0"
    "folded_rot_error demo_euler_z demo_env 1 = 0"
    unfolding folded_rot_error_def a b c by (simp_all add: remainder_def Let_def)
qed

text \<open>
  Claim C3. For every environment of a consistent environment object, \<open>is_success\<close>
  returns, and its entry for the environment is true exactly when the planar distance
  between the target's current position and the goal position is below \<open>0.02\<close>, the
  symmetry-folded rotation error is below four degrees, and the target's height is below
  \<open>0.003\<close>.
\<close>

theorem is_success_iff_three_checks:
  assumes "well_formed st" and "i < num_envs st"
  shows "\<exists>success. is_success euler_z st = Inr success \<and> length success = num_envs st \<and>
           (success ! i \<longleftrightarrow>
              xy_distance (fst (target_pose_env st i)) (target_goal_pos st ! i) < 2 / 100 \<and>
              folded_rot_error euler_z st i < 4 * pi / 180 \<and>
              vz (fst (target_pose_env st i)) < 3 / 1000)"
  using assms(2) unfolding is_success_wf[OF assms(1)]
  by (simp add: success_spec_def radians_def)

theorem is_success_iff_three_checks_witness:
  "well_formed demo_env \<and> 0 < num_envs demo_env \<and>
   is_success demo_euler_z demo_env = Inr [True, True] \<and>
   xy_distance (fst (target_pose_env demo_env 0)) (target_goal_pos demo_env ! 0) < 2 / 100 \<and>
   folded_rot_error demo_euler_z demo_env 0 < 4 * pi / 180 \<and>
   vz (fst (target_pose_env demo_env 0)) < 3 / 1000"
proof -
  have wf: "well_formed demo_env" by (rule demo_well_formed)
  have n: "num_envs demo_env = 2" by (simp add: demo_env_def)
  have g: "target_goal_pos demo_env = [(1 / 10, 0, 0), (2 / 10, 0, 0)]" by (simp add: demo_env_def)
  have c0: "xy_distance (fst (target_pose_env demo_env 0)) (target_goal_pos demo_env ! 0) < 2 / 100"
    unfolding demo_target_pose g
    by (rule xy_distance_lessI) (simp_all add: vx_def vy_def power2_eq_square)
  have c1: "xy_distance (fst (target_pose_env demo_env 1)) (target_goal_pos demo_env ! 1) < 2 / 100"
    unfolding demo_target_pose g
    by (rule xy_distance_lessI) (simp_all add: vx_def vy_def power2_eq_square)
  have z0: "vz (fst (target_pose_env demo_env 0)) < 3 / 1000"
    and z1: "vz (fst (target_pose_env demo_env 1)) < 3 / 1000"
    unfolding demo_target_pose by (simp_all add: vz_def)
  have r0: "folded_rot_error demo_euler_z demo_env 0 < 4 * pi / 180"
    and r1: "folded_rot_error demo_euler_z demo_env 1 < 4 * pi / 180"
    unfolding demo_folded by simp_all
  from is_success_iff_three_checks[OF wf, of 0 demo_euler_z]
       is_success_iff_three_checks[OF wf, of 1 demo_euler_z]
  obtain s where s: "is_success demo_euler_z demo_env = Inr s" "length s = 2" "s ! 0" "s ! 1"
    using n c0 c1 z0 z1 r0 r1 by auto
  then have "s = [True, True]"
    by (intro nth_equalityI) (auto simp: less_Suc_eq numeral_2_eq_2)
  with s wf n c0 r0 z0 show ?thesis by simp
qed

lemma remainder_period:
  assumes "p \<noteq> 0" shows "remainder (x + p) p = remainder x p"
proof -
  have "(x + p) / p = x / p + 1" using assms by (simp add: field_simps)
  then have "\<lfloor>(x + p) / p\<rfloor> = \<lfloor>x / p\<rfloor> + 1" by simp
  then show ?thesis by (simp add: remainder_def algebra_simps)
qed

lemma remainder_range:
  assumes "0 < p" shows "0 \<le> remainder x p \<and> remainder x p < p"
proof -
  have a: "of_int \<lfloor>x / p\<rfloor> \<le> x / p" by (rule of_int_floor_le)
  have b: "x / p < of_int \<lfloor>x / p\<rfloor> + 1" by linarith
  from a assms have "of_int \<lfloor>x / p\<rfloor> * p \<le> x" by (simp only: pos_le_divide_eq)
  moreover from b assms have "x < (of_int \<lfloor>x / p\<rfloor> + 1) * p" by (simp only: pos_divide_less_eq)
  ultimately show ?thesis by (simp add: remainder_def algebra_simps)
qed

text \<open>
  Claim C4. The rotational error that \<open>is_success\<close> compares with \<open>rot_eps\<close> is the
  absolute difference \<open>d\<close> of current and goal Z-rotation reduced modulo the symmetry
  period \<open>P\<close> of the target's shape and replaced by \<open>P\<close> minus itself when it exceeds
  \<open>P / 2\<close>; it lies in \<open>[0, P / 2]\<close>, and raw errors of \<open>0.49 P\<close> and \<open>0.51 P\<close> both
  fold to \<open>0.49 P\<close>, and a raw error of \<open>d + P\<close> gives the same folded error as \<open>d\<close>.
\<close>

theorem rot_error_folds_at_symmetry_period:
  assumes "well_formed st" and "i < num_envs st"
    and "symmetry st ! (current_target_model_id st ! i) = P" and "0 < P"
    and "\<bar>euler_z (snd (target_pose_env st i)) - target_goal_rot st ! i\<bar> = d"
  shows "(\<exists>success. is_success_eps euler_z pos_eps rot_eps height_eps st = Inr success \<and>
           (success ! i \<longleftrightarrow>
              xy_distance (fst (target_pose_env st i)) (target_goal_pos st ! i) < pos_eps \<and>
              (if remainder d P > P / 2 then P - remainder d P else remainder d P) < rot_eps \<and>
              vz (fst (target_pose_env st i)) < height_eps)) \<and>
         folded_rot_error euler_z st i
           = (if remainder d P > P / 2 then P - remainder d P else remainder d P) \<and>
         (d = 49 / 100 * P \<or> d = 51 / 100 * P \<longrightarrow> folded_rot_error euler_z st i = 49 / 100 * P) \<and>
         fold_half_symmetry (remainder (d + P) P) P = folded_rot_error euler_z st i \<and>
         0 \<le> folded_rot_error euler_z st i \<and> folded_rot_error euler_z st i \<le> P / 2"
proof -
  have f: "folded_rot_error euler_z st i
           = (if remainder d P > P / 2 then P - remainder d P else remainder d P)"
    using assms(3,5) by (simp add: folded_rot_error_def Let_def)
  have s: "\<exists>success. is_success_eps euler_z pos_eps rot_eps height_eps st = Inr success \<and>
           (success ! i \<longleftrightarrow>
              xy_distance (fst (target_pose_env st i)) (target_goal_pos st ! i) < pos_eps \<and>
              (if remainder d P > P / 2 then P - remainder d P else remainder d P) < rot_eps \<and>
              vz (fst (target_pose_env st i)) < height_eps)"
    unfolding is_success_eps_wf[OF assms(1)] f[symmetric] using assms(2) by simp
  have e: "folded_rot_error euler_z st i = 49 / 100 * P" if "d = 49 / 100 * P \<or> d = 51 / 100 * P"
    using that assms(4) unfolding f by (auto simp: remainder_small)
  have r: "0 \<le> folded_rot_error euler_z st i \<and> folded_rot_error euler_z st i \<le> P / 2"
    unfolding f using remainder_range[OF assms(4), of d] by auto
  have p: "fold_half_symmetry (remainder (d + P) P) P = folded_rot_error euler_z st i"
    unfolding f using remainder_period[of P d] assms(4) by (simp add: fold_half_symmetry_def)
  from f s e r p show ?thesis by blast
qed

theorem rot_error_folds_at_symmetry_period_witness:
  "well_formed demo_rot_env \<and> 0 < num_envs demo_rot_env \<and>
   symmetry demo_rot_env ! (current_target_model_id demo_rot_env ! 0) = 1 \<and> (0::real) < 1 \<and>
   \<bar>demo_euler_z (snd (target_pose_env demo_rot_env 0)) - target_goal_rot demo_rot_env ! 0\<bar> = 51 / 100 \<and>
   folded_rot_error demo_euler_z demo_rot_env 0 = 49 / 100"
proof -
  have wf: "well_formed demo_rot_env"
    by (simp add: well_formed_def demo_rot_env_def demo_env_def)
  have n: "0 < num_envs demo_rot_env" by (simp add: demo_rot_env_def demo_env_def)
  have p: "symmetry demo_rot_env ! (current_target_model_id demo_rot_env ! 0) = 1"
    by (simp add: demo_rot_env_def demo_env_def)
  have d: "\<bar>demo_euler_z (snd (target_pose_env demo_rot_env 0)) - target_goal_rot demo_rot_env ! 0\<bar> = 51 / 100"
    by (simp add: demo_rot_env_def demo_env_def target_pose_env_def demo_euler_z_def)
  have "folded_rot_error demo_euler_z demo_rot_env 0 = 49 / 100"
    using rot_error_folds_at_symmetry_period
            [where st = demo_rot_env and i = 0 and P = 1 and d = "51 / 100"
               and euler_z = demo_euler_z and pos_eps = 0 and rot_eps = 0 and height_eps = 0,
             OF wf n p _ d]
    by simp
  with wf n p d show ?thesis by simp
qed


lemma demo_is_success: "is_success demo_euler_z demo_env = Inr [True, True]"
proof -
  have g: "target_goal_pos demo_env = [(1 / 10, 0, 0), (2 / 10, 0, 0)]" by (simp add: demo_env_def)
  have c0: "xy_distance (fst (target_pose_env demo_env 0)) (target_goal_pos demo_env ! 0) < 2 / 100"
    unfolding demo_target_pose g
    by (rule xy_distance_lessI) (simp_all add: vx_def vy_def power2_eq_square)
  have c1: "xy_distance (fst (target_pose_env demo_env 1)) (target_goal_pos demo_env ! 1) < 2 / 100"
    unfolding demo_target_pose g
    by (rule xy_distance_lessI) (simp_all add: vx_def vy_def power2_eq_square)
  have z: "vz (fst (target_pose_env demo_env 0)) < 3 / 1000"
      "vz (fst (target_pose_env demo_env 1)) < 3 / 1000"
    unfolding demo_target_pose by (simp_all add: vz_def)
  have r: "folded_rot_error demo_euler_z demo_env 0 < radians 4"
      "folded_rot_error demo_euler_z demo_env 1 < radians 4"
    unfolding demo_folded by (simp_all add: radians_def)
  have s: "success_spec demo_euler_z demo_env 0" "success_spec demo_euler_z demo_env 1"
    unfolding success_spec_def using c0 c1 z r by blast+
  have n: "[0..<num_envs demo_env] = [0, 1]" by (simp add: demo_env_def upt_rec)
  show ?thesis unfolding is_success_wf[OF demo_well_formed] n using s by simp
qed

text \<open>
  Claim C8. On a consistent environment object the reward of every environment is
  \<open>+1\<close> when the terminated component of the done signal is true and \<open>-1\<close> otherwise,
  and the timed-out component is true exactly when the elapsed step count is at least
  the episode length minus one.
\<close>

theorem reward_matches_terminated:
  assumes "well_formed st"
  shows "\<exists>terminated time_out reward.
           get_dones euler_z st = Inr (terminated, time_out) \<and>
           compute_rewards euler_z st = Inr reward \<and>
           length terminated = num_envs st \<and> length reward = num_envs st \<and>
           length time_out = length (episode_length_buf st) \<and>
           (\<forall>i < num_envs st. reward ! i = (if terminated ! i then 1 else - 1)) \<and>
           (\<forall>i < length (episode_length_buf st).
              time_out ! i \<longleftrightarrow> episode_length_buf st ! i \<ge> max_episode_length st - 1)"
  unfolding get_dones_def compute_rewards_def is_success_wf[OF assms]
  by (simp add: Let_def)

theorem reward_matches_terminated_witness:
  "well_formed demo_env \<and>
   get_dones demo_euler_z demo_env = Inr ([True, True], [False, True]) \<and>
   compute_rewards demo_euler_z demo_env = Inr [1, 1]"
proof -
  from reward_matches_terminated[OF demo_well_formed, of demo_euler_z]
  obtain terminated time_out reward where
    d: "get_dones demo_euler_z demo_env = Inr (terminated, time_out)"
    and c: "compute_rewards demo_euler_z demo_env = Inr reward"
    and l: "length reward = num_envs demo_env"
    and r: "\<forall>i < num_envs demo_env. reward ! i = (if terminated ! i then 1 else - 1)"
    and t: "length time_out = length (episode_length_buf demo_env)"
      "\<forall>i < length (episode_length_buf demo_env).
              time_out ! i \<longleftrightarrow> episode_length_buf demo_env ! i \<ge> max_episode_length demo_env - 1"
    by blast
  from d have te: "terminated = [True, True]"
    by (simp add: get_dones_def demo_is_success Let_def)
  have n: "num_envs demo_env = 2" "episode_length_buf demo_env = [0, 99]"
     "max_episode_length demo_env = 100" by (simp_all add: demo_env_def)
  from l r have "reward = [1, 1]" unfolding te n
    by (intro nth_equalityI) (auto simp: less_Suc_eq numeral_2_eq_2)
  moreover from t have "time_out = [False, True]" unfolding n
    by (intro nth_equalityI) (auto simp: less_Suc_eq numeral_2_eq_2)
  ultimately show ?thesis using d c te demo_well_formed by simp
qed

text \<open>
  Claim C10. The height check has no lower bound: an environment whose target passes
  the planar and the rotational check is reported successful for every height \<open>z\<close> below
  \<open>0.003\<close>, however negative.
\<close>

theorem height_check_has_no_lower_bound:
  assumes "well_formed st" and "i < num_envs st"
    and "xy_distance (fst (target_pose_env st i)) (target_goal_pos st ! i) < 2 / 100"
    and "folded_rot_error euler_z st i < 4 * pi / 180"
    and "vz (fst (target_pose_env st i)) = z" and "z < 3 / 1000"
  shows "\<exists>success. is_success euler_z st = Inr success \<and> success ! i"
  unfolding is_success_wf[OF assms(1)] using assms(2-)
  by (simp add: success_spec_def radians_def)

theorem height_check_has_no_lower_bound_witness:
  "well_formed demo_env \<and> 1 < num_envs demo_env \<and>
   xy_distance (fst (target_pose_env demo_env 1)) (target_goal_pos demo_env ! 1) < 2 / 100 \<and>
   folded_rot_error demo_euler_z demo_env 1 < 4 * pi / 180 \<and>
   vz (fst (target_pose_env demo_env 1)) = - 1000 \<and> (- 1000 :: real) < 3 / 1000 \<and>
   (\<exists>success. is_success demo_euler_z demo_env = Inr success \<and> success ! 1)"
proof -
  have g: "target_goal_pos demo_env = [(1 / 10, 0, 0), (2 / 10, 0, 0)]" by (simp add: demo_env_def)
  have n: "1 < num_envs demo_env" by (simp add: demo_env_def)
  have c: "xy_distance (fst (target_pose_env demo_env 1)) (target_goal_pos demo_env ! 1) < 2 / 100"
    unfolding demo_target_pose g
    by (rule xy_distance_lessI) (simp_all add: vx_def vy_def power2_eq_square)
  have r: "folded_rot_error demo_euler_z demo_env 1 < 4 * pi / 180"
    unfolding demo_folded by simp
  have z: "vz (fst (target_pose_env demo_env 1)) = - 1000"
    unfolding demo_target_pose by (simp add: vz_def)
  have b: "(- 1000 :: real) < 3 / 1000" by simp
  from height_check_has_no_lower_bound[OF demo_well_formed n c r z b]
  have "\<exists>success. is_success demo_euler_z demo_env = Inr success \<and> success ! 1" .
  with demo_well_formed n c r z b show ?thesis by blast
qed

lemma quat_mul_identity: "quat_mul quat_identity q = q"
  by (cases q) (simp add: quat_mul_def quat_identity_def)

lemma quat_apply_identity: "quat_apply quat_identity v = v"
  by (cases v) (simp add: quat_apply_def quat_identity_def cross_def vscale_def vadd_def)

lemma tf_combine_identity: "tf_combine quat_identity (0, 0, 0) q t = (q, t)"
  by (cases t) (simp add: tf_combine_def quat_mul_identity quat_apply_identity vadd_def)

lemma zip_map_same: "zip (map f xs) (map g xs) = map (\<lambda>x. (f x, g x)) xs"
  by (induction xs) simp_all

lemma compute_tcp_world_ok:
  assumes "tcp_well_formed st" and "\<forall>e \<in> set env_ids. e < num_envs st"
  shows "compute_tcp_world st (Some env_ids) =
           Inr (map (\<lambda>e. vsub (snd (world_tcp st e)) (env_origins st ! e)) env_ids,
                map (\<lambda>e. fst (world_tcp st e)) env_ids)"
proof -
  from assms have
    a: "index_rows (hand_pos_w st) env_ids = Inr (map (\<lambda>e. hand_pos_w st ! e) env_ids)"
    and b: "index_rows (hand_rot_w st) env_ids = Inr (map (\<lambda>e. hand_rot_w st ! e) env_ids)"
    and c: "index_rows (robot_local_grasp_rot st) env_ids
              = Inr (map (\<lambda>e. robot_local_grasp_rot st ! e) env_ids)"
    and d: "index_rows (robot_local_grasp_pos st) env_ids
              = Inr (map (\<lambda>e. robot_local_grasp_pos st ! e) env_ids)"
    and e: "index_rows (env_origins st) env_ids = Inr (map (\<lambda>e. env_origins st ! e) env_ids)"
    by (auto intro!: index_rows_ok simp: tcp_well_formed_def)
  show ?thesis
    unfolding compute_tcp_world_def option.case Let_def a b c d e ebind_Inr
    by (simp add: zip_map_same world_tcp_def o_def)
qed


text \<open>
  Claim C9. For the selected environments \<open>_compute_tcp_world\<close> returns the composition
  of the wrist world pose with the cached local TCP pose, the environment origin
  subtracted from the position; \<open>None\<close> selects all environments. Where the wrist world
  pose is the identity transform, the result is the cached local TCP position minus the
  origin, with the local TCP rotation unchanged.
\<close>

theorem world_tcp_composes_wrist_with_local:
  assumes "tcp_well_formed st" and "\<forall>e \<in> set env_ids. e < num_envs st"
  shows "compute_tcp_world st (Some env_ids) =
           Inr (map (\<lambda>e. vsub (snd (world_tcp st e)) (env_origins st ! e)) env_ids,
                map (\<lambda>e. fst (world_tcp st e)) env_ids) \<and>
         compute_tcp_world st None = compute_tcp_world st (Some [0..<num_envs st]) \<and>
         ((\<forall>e \<in> set env_ids. hand_rot_w st ! e = quat_identity \<and> hand_pos_w st ! e = (0, 0, 0)) \<longrightarrow>
            compute_tcp_world st (Some env_ids) =
              Inr (map (\<lambda>e. vsub (robot_local_grasp_pos st ! e) (env_origins st ! e)) env_ids,
                   map (\<lambda>e. robot_local_grasp_rot st ! e) env_ids))"
proof -
  have a: "compute_tcp_world st (Some env_ids) =
           Inr (map (\<lambda>e. vsub (snd (world_tcp st e)) (env_origins st ! e)) env_ids,
                map (\<lambda>e. fst (world_tcp st e)) env_ids)"
    by (rule compute_tcp_world_ok[OF assms])
  have b: "compute_tcp_world st None = compute_tcp_world st (Some [0..<num_envs st])"
    by (simp add: compute_tcp_world_def)
  have c: "compute_tcp_world st (Some env_ids) =
              Inr (map (\<lambda>e. vsub (robot_local_grasp_pos st ! e) (env_origins st ! e)) env_ids,
                   map (\<lambda>e. robot_local_grasp_rot st ! e) env_ids)"
    if "\<forall>e \<in> set env_ids. hand_rot_w st ! e = quat_identity \<and> hand_pos_w st ! e = (0, 0, 0)"
  proof -
    from that have "\<And>e. e \<in> set env_ids \<Longrightarrow>
        world_tcp st e = (robot_local_grasp_rot st ! e, robot_local_grasp_pos st ! e)"
      by (simp add: world_tcp_def tf_combine_identity)
    then show ?thesis unfolding a by simp
  qed
  from a b c show ?thesis by blast
qed

theorem world_tcp_composes_wrist_with_local_witness:
  "tcp_well_formed demo_env \<and> 0 < num_envs demo_env \<and>
   hand_rot_w demo_env ! 0 = quat_identity \<and> hand_pos_w demo_env ! 0 = (0, 0, 0) \<and>
   compute_tcp_world demo_env (Some [0]) = Inr ([(0, 4 / 100, 1 / 10)], [(0, 1, 0, 0)])"
proof -
  have wf: "tcp_well_formed demo_env" by (simp add: tcp_well_formed_def demo_env_def)
  have n: "0 < num_envs demo_env" by (simp add: demo_env_def)
  have h: "hand_rot_w demo_env ! 0 = quat_identity" "hand_pos_w demo_env ! 0 = (0, 0, 0)"
    by (simp_all add: demo_env_def quat_identity_def)
  from n have ids: "\<forall>e \<in> set [0]. e < num_envs demo_env" by simp
  from h have idt: "\<forall>e \<in> set [0]. hand_rot_w demo_env ! e = quat_identity \<and> hand_pos_w demo_env ! e = (0, 0, 0)"
    by simp
  from world_tcp_composes_wrist_with_local[OF wf ids] idt
  have "compute_tcp_world demo_env (Some [0]) =
          Inr (map (\<lambda>e. vsub (robot_local_grasp_pos demo_env ! e) (env_origins demo_env ! e)) [0],
               map (\<lambda>e. robot_local_grasp_rot demo_env ! e) [0])"
    by blast
  then have "compute_tcp_world demo_env (Some [0]) = Inr ([(0, 4 / 100, 1 / 10)], [(0, 1, 0, 0)])"
    by (simp add: demo_env_def vsub_def)
  with wf n h show ?thesis by blast
qed

subsection \<open>Episode sampler\<close>

lemma ebind_eq_Inr: "ebind m f = Inr y \<longleftrightarrow> (\<exists>x. m = Inr x \<and> f x = Inr y)"
  by (cases m) simp_all

lemma emap_Inr_nth:
  "emap f xs = Inr ys \<Longrightarrow> length ys = length xs \<and> (\<forall>i < length xs. f (xs ! i) = Inr (ys ! i))"
proof (induction xs arbitrary: ys)
  case Nil
  then show ?case by simp
next
  case (Cons x xs)
  from Cons.prems obtain y ys' where y: "f x = Inr y" and ys': "emap f xs = Inr ys'"
    and ys: "ys = y # ys'"
    by (auto simp: ebind_eq_Inr)
  from Cons.IH[OF ys'] y ys show ?case
    by (auto simp: nth_Cons split: nat.splits)
qed

lemma index_rows_Inr:
  assumes "index_rows t idx = Inr ys"
  shows "length ys = length idx" and "\<And>i. i < length idx \<Longrightarrow> ys ! i = t ! (idx ! i)"
proof -
  from emap_Inr_nth[OF assms[unfolded index_rows_def]]
  have l: "length ys = length idx" and n: "\<forall>i < length idx. getitem t (idx ! i) = Inr (ys ! i)"
    by blast+
  show "length ys = length idx" by (rule l)
  fix i assume "i < length idx"
  with n have "getitem t (idx ! i) = Inr (ys ! i)" by blast
  then show "ys ! i = t ! (idx ! i)" by (simp add: getitem_def split: if_splits)
qed

lemma index_cols_Inr:
  assumes "index_cols t oi = Inr ys"
  shows "length ys = length oi" and "\<And>b. b < length oi \<Longrightarrow> length (ys ! b) = length (oi ! b)"
proof -
  from emap_Inr_nth[OF assms[unfolded index_cols_def]]
  have l: "length ys = length oi"
    and n: "\<forall>b < length oi. (case (zip [0..<length oi] oi) ! b of (b, cs) \<Rightarrow>
               ebind (getitem t b) (\<lambda>row. index_rows row cs)) = Inr (ys ! b)"
    by simp_all
  show "length ys = length oi" by (rule l)
  fix b assume b: "b < length oi"
  with n have "ebind (getitem t b) (\<lambda>row. index_rows row (oi ! b)) = Inr (ys ! b)" by simp
  then obtain row where "index_rows row (oi ! b) = Inr (ys ! b)" by (auto simp: ebind_eq_Inr)
  then show "length (ys ! b) = length (oi ! b)" by (rule index_rows_Inr(1))
qed

lemma randint_Inr: "randint lo hi n raw = Inr xs \<Longrightarrow> length xs = n"
  by (auto simp: randint_def split: if_splits)

text \<open>
  Claim C5 (amended). The position computed for a distractor that the staging draw
  selects is the kit's world position of its environment (the kit's default position
  plus the environment origin) plus the fixed offset \<open>(-table_offset, 0.2, 0.1)\<close>; the
  offset is the same for every kit variant, slot and environment.
\<close>

theorem staged_position_is_kit_position_plus_offset:
  assumes "sample_placement quat_from_yaw rng env_ids st = Inr pl"
    and "b < length env_ids" and "j < length (p_others_pos_w pl ! b)"
    and "p_mask_other_to_side pl ! b ! j"
  shows "p_others_pos_w pl ! b ! j =
           vadd (vadd (kit_default_pos st ! (env_ids ! b)) (env_origins st ! (env_ids ! b)))
             (- table_offset st, 2 / 10, 1 / 10)"
proof -
  let ?n = "length env_ids"
  from assms(1) obtain num_models kit_def origins model_rel_pos choice others_pos where
    kd: "index_rows (kit_default_pos st) env_ids = Inr kit_def"
    and og: "index_rows (env_origins st) env_ids = Inr origins"
    and ch: "randint 0 (int num_models) ?n (draw_choice rng) = Inr choice"
    and op: "index_cols model_rel_pos (map (\<lambda>c. filter (\<lambda>col. col \<noteq> c) [0..<num_models]) choice)
               = Inr others_pos"
    and pw: "p_others_pos_w pl = map2 (\<lambda>k prow. map (\<lambda>p. vadd k p) prow) (map2 vadd kit_def origins)
               (map2 (\<lambda>mrow prow. map2 (\<lambda>m p. if m then side_pos st else p) mrow prow)
                  (p_mask_other_to_side pl) others_pos)"
    and ml: "length (p_mask_other_to_side pl) = ?n"
    unfolding sample_placement_def Let_def
    by (auto simp: ebind_eq_Inr)
  have lk: "length kit_def = ?n" "length origins = ?n"
    using index_rows_Inr(1)[OF kd] index_rows_Inr(1)[OF og] by simp_all
  have lo: "length others_pos = ?n"
    using index_cols_Inr(1)[OF op] randint_Inr[OF ch] by simp
  have kb: "kit_def ! b = kit_default_pos st ! (env_ids ! b)"
      "origins ! b = env_origins st ! (env_ids ! b)"
    using index_rows_Inr(2)[OF kd assms(2)] index_rows_Inr(2)[OF og assms(2)] by simp_all
  have row: "p_others_pos_w pl ! b =
      map (\<lambda>p. vadd (vadd (kit_def ! b) (origins ! b)) p)
        (map2 (\<lambda>m p. if m then side_pos st else p) (p_mask_other_to_side pl ! b) (others_pos ! b))"
    unfolding pw using assms(2) lk lo ml by simp
  from assms(3) have j: "j < length (p_mask_other_to_side pl ! b)" "j < length (others_pos ! b)"
    unfolding row by simp_all
  show ?thesis
    unfolding row using j assms(4) by (simp add: kb side_pos_def)
qed

lemmas sampler_defs = sample_models_for_envs_def sample_placement_def write_model_def shape1_def
  index_rows_def getitem_def index2_def index_cols_def randint_def select_def set_pos_def
  set_quat_def side_pos_def vadd_def Let_def stored_goal_pos_def stored_goal_rot_def
  stored_target_def written_pose_def

lemma demo_placement_eval:
  "sample_placement demo_yaw demo_rng_pick [0, 1] demo_env =
     Inr \<lparr> p_kit_pos_w = [(55 / 100, 0, 7 / 1000), (1055 / 100, 0, 7 / 1000)],
           p_choice = [0, 0], p_current_target = [0, 0], p_current_target_model_id = [0, 0],
           p_others_idx = [[1], [1]], p_offsets = [(0, 3 / 10, 1 / 10), (0, 3 / 10, 1 / 10)],
           p_target_pos = [(55 / 100, 3 / 10, 107 / 1000), (1055 / 100, 3 / 10, 107 / 1000)],
           p_target_quat = [(1, 0, 0, 0), (1, 0, 0, 0)],
           p_target_goal_pos = [(1 / 10, 0, 0), (1 / 10, 0, 0)], p_target_goal_rot = [0, 0],
           p_mask_other_to_side = [[True], [True]],
           p_others_pos_w = [[(5 / 100, 2 / 10, 107 / 1000)], [(1005 / 100, 2 / 10, 107 / 1000)]],
           p_others_rot_w = [[0], [0]] \<rparr>"
  by (simp add: sample_placement_def shape1_def index_rows_def getitem_def index2_def
      index_cols_def randint_def side_pos_def vadd_def Let_def
      demo_env_def demo_rng_def demo_rng_pick_def demo_yaw_def)

theorem staged_position_is_kit_position_plus_offset_witness:
  "sample_placement demo_yaw demo_rng_pick [0, 1] demo_env = Inr demo_placement \<and>
   1 < length [0, 1 :: nat] \<and> 0 < length (p_others_pos_w demo_placement ! 1) \<and>
   p_mask_other_to_side demo_placement ! 1 ! 0 \<and>
   p_others_pos_w demo_placement ! 1 ! 0 = (1005 / 100, 2 / 10, 107 / 1000)"
proof -
  have e: "sample_placement demo_yaw demo_rng_pick [0, 1] demo_env = Inr demo_placement"
    unfolding demo_placement_def demo_placement_eval by simp
  have b: "1 < length [0, 1 :: nat]" by simp
  have j: "0 < length (p_others_pos_w demo_placement ! 1)"
    unfolding demo_placement_def demo_placement_eval by simp
  have m: "p_mask_other_to_side demo_placement ! 1 ! 0"
    unfolding demo_placement_def demo_placement_eval by simp
  from staged_position_is_kit_position_plus_offset[OF e b j m]
  have "p_others_pos_w demo_placement ! 1 ! 0 = (1005 / 100, 2 / 10, 107 / 1000)"
    by (simp add: demo_env_def vadd_def)
  with e b j m show ?thesis by blast
qed

text \<open>
  Claim C5 (as stated) fails: in one call over two environments that share the kit
  variant and both stage their distractor (model 1), the positions written differ, since
  each is offset by its own kit's world position; neither is the bare constant.
\<close>

theorem staged_positions_differ_between_envs:
  "kit_ids_per_env demo_env ! 0 = kit_ids_per_env demo_env ! 1 \<and>
   side_pos demo_env = (- 1 / 2, 2 / 10, 1 / 10) \<and>
   written_pose (sample_models_for_envs demo_yaw demo_rng_pick [0, 1] demo_env) 1 0
     = Inr ((5 / 100, 2 / 10, 107 / 1000), (1, 0, 0, 0)) \<and>
   written_pose (sample_models_for_envs demo_yaw demo_rng_pick [0, 1] demo_env) 1 1
     = Inr ((1005 / 100, 2 / 10, 107 / 1000), (1, 0, 0, 0)) \<and>
   written_pose (sample_models_for_envs demo_yaw demo_rng_pick [0, 1] demo_env) 1 0
     \<noteq> written_pose (sample_models_for_envs demo_yaw demo_rng_pick [0, 1] demo_env) 1 1"
  by (simp add: sampler_defs demo_env_def demo_rng_def demo_rng_pick_def demo_yaw_def)

text \<open>
  Claim C1 at a failing input. Two environments hold goal rows; sampling the subset
  \<open>[0]\<close> returns normally and leaves the target slot and the object poses of environment 1
  alone, but \<open>target_goal_pos\<close> and \<open>target_goal_rot\<close> are replaced by tensors with one
  row per sampled environment, so the goal row of environment 1 no longer exists.
\<close>

theorem sampling_env0_drops_goal_row_of_env1:
  "stored_goal_pos (Inr demo_env) 1 = Inr (2 / 10, 0, 0) \<and>
   stored_goal_pos (sample_models_for_envs demo_yaw demo_rng [0] demo_env) 1 = Inl IndexError \<and>
   stored_goal_rot (Inr demo_env) 1 = Inr 0 \<and>
   stored_goal_rot (sample_models_for_envs demo_yaw demo_rng [0] demo_env) 1 = Inl IndexError \<and>
   stored_goal_pos (sample_models_for_envs demo_yaw demo_rng [0] demo_env) 0 = Inr (1 / 10, 0, 0) \<and>
   stored_target (sample_models_for_envs demo_yaw demo_rng [0] demo_env) 0 = Inr 0 \<and>
   stored_target (sample_models_for_envs demo_yaw demo_rng [0] demo_env) 1 = Inr 1 \<and>
   written_pose (sample_models_for_envs demo_yaw demo_rng [0] demo_env) 0 1
     = written_pose (Inr demo_env) 0 1 \<and>
   written_pose (sample_models_for_envs demo_yaw demo_rng [0] demo_env) 1 1
     = written_pose (Inr demo_env) 1 1"
  by (simp add: sampler_defs demo_env_def demo_rng_def demo_yaw_def)

text \<open>
  Claim C2 at a failing input. After sampling both environments the goal stored for
  environment 0 is the kit-local row \<open>(0.1, 0, 0)\<close> of the chosen slot, not that row moved
  to the kit's world position and expressed relative to the environment origin, which is
  \<open>(0.65, 0, 0.007)\<close>. The distractor of the same call (model 1) is written at its row
  plus the kit's world position.
\<close>

theorem stored_goal_is_raw_kit_row:
  "stored_target (sample_models_for_envs demo_yaw demo_rng [0, 1] demo_env) 0 = Inr 0 \<and>
   model_target_pos demo_env ! (kit_ids_per_env demo_env ! 0) ! 0 = (1 / 10, 0, 0) \<and>
   stored_goal_pos (sample_models_for_envs demo_yaw demo_rng [0, 1] demo_env) 0
     = Inr (1 / 10, 0, 0) \<and>
   vsub (vadd (vadd (kit_default_pos demo_env ! 0) (env_origins demo_env ! 0))
           (model_target_pos demo_env ! (kit_ids_per_env demo_env ! 0) ! 0))
        (env_origins demo_env ! 0) = (65 / 100, 0, 7 / 1000) \<and>
   stored_goal_pos (sample_models_for_envs demo_yaw demo_rng [0, 1] demo_env) 0
     \<noteq> Inr (65 / 100, 0, 7 / 1000) \<and>
   written_pose (sample_models_for_envs demo_yaw demo_rng [0, 1] demo_env) 1 0
     = Inr ((75 / 100, 0, 7 / 1000), (1, 0, 0, 0))"
  by (simp add: sampler_defs demo_env_def demo_rng_def demo_yaw_def vsub_def)

text \<open>
  Claim C6 at a failing input. For a kit with a single slot the draw of the distractor
  column, \<open>torch.randint(0, num_models - 1, ...)\<close>, has an empty range and raises: the call
  does not complete.
\<close>

theorem single_slot_kit_sampling_raises:
  "shape1 (model_target_pos demo_single_slot_env) = Inr 1 \<and>
   sample_models_for_envs demo_yaw demo_rng [0] demo_single_slot_env = Inl RandintRangeError"
  by (simp add: sampler_defs demo_single_slot_env_def demo_rng_def demo_yaw_def)

text \<open>
  Claim C7 at a failing input. The subset \<open>[1, 0]\<close> with target slot 0 drawn for
  environment 1 and target slot 1 for environment 0: the call returns, and the only
  distractor of environment 1 (model 1) is written at the start pose computed for the
  target of environment 0, which is neither its kit goal pose \<open>(10.75, 0, 0.007)\<close> nor its
  staging pose. For the subset \<open>[1]\<close> the same indexing raises.
\<close>

theorem permuted_subset_misplaces_distractor:
  "stored_target (sample_models_for_envs demo_yaw demo_rng_mixed [1, 0] demo_env) 1 = Inr 0 \<and>
   stored_target (sample_models_for_envs demo_yaw demo_rng_mixed [1, 0] demo_env) 0 = Inr 1 \<and>
   written_pose (sample_models_for_envs demo_yaw demo_rng_mixed [1, 0] demo_env) 1 1
     = Inr ((55 / 100, 3 / 10, 107 / 1000), (1, 0, 0, 0)) \<and>
   vadd (vadd (kit_default_pos demo_env ! 1) (env_origins demo_env ! 1))
     (model_target_pos demo_env ! (kit_ids_per_env demo_env ! 1) ! 1) = (1075 / 100, 0, 7 / 1000) \<and>
   vadd (vadd (kit_default_pos demo_env ! 1) (env_origins demo_env ! 1)) (side_pos demo_env)
     = (1005 / 100, 2 / 10, 107 / 1000) \<and>
   written_pose (sample_models_for_envs demo_yaw demo_rng_mixed [1, 0] demo_env) 0 1
     = Inr ((65 / 100, 0, 7 / 1000), (1, 0, 0, 0)) \<and>
   written_pose (sample_models_for_envs demo_yaw demo_rng_mixed [1, 0] demo_env) 0 0
     = Inr ((1055 / 100, 3 / 10, 107 / 1000), (1, 0, 0, 0)) \<and>
   written_pose (sample_models_for_envs demo_yaw demo_rng_mixed [1, 0] demo_env) 1 0
     = Inr ((1075 / 100, 0, 7 / 1000), (1, 0, 0, 0)) \<and>
   sample_models_for_envs demo_yaw demo_rng_mixed [1] demo_env = Inl IndexError"
  by (simp add: sampler_defs demo_env_def demo_rng_def demo_rng_mixed_def demo_yaw_def)

subsection \<open>What the sampler preserves\<close>

lemma index_put_other:
  "index_put t idx vals = Inr t' \<Longrightarrow> j \<notin> set idx \<Longrightarrow> length t' = length t \<and> t' ! j = t ! j"
proof (induction t idx vals rule: index_put.induct)
  case (1 t)
  then show ?case by simp
next
  case (2 t i idx v vals)
  then show ?case by (auto split: if_splits)
qed simp_all

lemma write_model_other:
  assumes "write_model quat_from_yaw st env_ids pl k roots = Inr roots'" and "j \<notin> set env_ids"
  shows "length roots' = length roots \<and> (\<forall>m. roots' ! m ! j = roots ! m ! j)"
proof -
  from assms(1) obtain default2 root root' where
    r: "getitem roots k = Inr root" and p: "index_put root env_ids default2 = Inr root'"
    and e: "roots' = roots[k := root']"
    unfolding write_model_def Let_def by (auto simp: ebind_eq_Inr)
  from r have k: "k < length roots" "root = roots ! k"
    by (auto simp: getitem_def split: if_splits)
  from index_put_other[OF p assms(2)] have "root' ! j = root ! j" by simp
  with e k show ?thesis by (auto simp: nth_list_update)
qed

lemma write_models_other:
  "write_models quat_from_yaw st env_ids pl ks roots = Inr roots' \<Longrightarrow> j \<notin> set env_ids \<Longrightarrow>
     length roots' = length roots \<and> (\<forall>m. roots' ! m ! j = roots ! m ! j)"
proof (induction ks arbitrary: roots)
  case Nil
  then show ?case by simp
next
  case (Cons k ks)
  from Cons.prems(1) obtain mid where
    a: "write_model quat_from_yaw st env_ids pl k roots = Inr mid"
    and b: "write_models quat_from_yaw st env_ids pl ks mid = Inr roots'"
    by (auto simp: ebind_eq_Inr)
  from write_model_other[OF a Cons.prems(2)] Cons.IH[OF b Cons.prems(2)]
  show ?case by simp
qed

text \<open>
  Whenever the call returns, the recorded target slot and the object poses of every
  environment outside \<open>env_ids\<close> are the ones before the call.
\<close>

lemma sample_leaves_other_slots_and_poses:
  assumes "sample_models_for_envs quat_from_yaw rng env_ids st = Inr st'" and "j \<notin> set env_ids"
  shows "current_target st' ! j = current_target st ! j \<and>
         length (models_root_pose st') = length (models_root_pose st) \<and>
         (\<forall>m. models_root_pose st' ! m ! j = models_root_pose st ! m ! j)"
proof -
  from assms(1) obtain pl num_models roots' where
    pl: "sample_placement quat_from_yaw rng env_ids st = Inr pl"
    and w: "write_models quat_from_yaw st env_ids pl [0..<num_models] (models_root_pose st) = Inr roots'"
    and st': "current_target st' = p_current_target pl" "models_root_pose st' = roots'"
    unfolding sample_models_for_envs_def by (auto simp: ebind_eq_Inr)
  from pl obtain choice where
    c: "index_put (current_target st) env_ids choice = Inr (p_current_target pl)"
    unfolding sample_placement_def Let_def by (auto simp: ebind_eq_Inr)
  from index_put_other[OF c assms(2)] write_models_other[OF w assms(2)] st'
  show ?thesis by simp
qed

text \<open>Each row of the staging mask holds at most one true entry.\<close>

lemma at_most_one_staged_per_env:
  assumes "sample_placement quat_from_yaw rng env_ids st = Inr pl" and "b < length env_ids"
  shows "length (filter (\<lambda>m. m) (p_mask_other_to_side pl ! b)) \<le> 1"
proof -
  from assms(1) obtain num_models cols where
    c: "randint 0 (int num_models - 1) (length env_ids) (draw_cols rng) = Inr cols"
    and pl: "p_mask_other_to_side pl =
           map (\<lambda>b. map (\<lambda>j. map (\<lambda>b. draw_pick rng b < 1 / 2) [0..<length env_ids] ! b \<and> cols ! b = j)
                  [0..<num_models - 1]) [0..<length env_ids]"
    unfolding sample_placement_def Let_def ebind_eq_Inr
    by (elim exE conjE) (simp only: sum.inject, auto)
  have "length (filter (\<lambda>j. P \<and> c = j) [0..<n]) \<le> 1" for P c and n :: nat
    by (induction n) auto
  then show ?thesis unfolding pl using assms(2) by (simp add: filter_map o_def)
qed

end
